theory Spec2Isabelle
  imports Complex_Main "HOL-Library.Sublist"
begin

unbundle bit_operations_syntax

section \<open>PrettyPapers: the page restyler of \<^verbatim>\<open>addimage.py\<close>\<close>

text \<open>
  The program opens a paginated document, and for every page draws onto a fresh page a
  blurred cover image, the raster images, the vector drawings and the text of the source
  page. This theory embeds \<^verbatim>\<open>int_to_rgb_float\<close>, \<^verbatim>\<open>map_font\<close> and
  \<^verbatim>\<open>stylise_pdf\<close> and proves the properties the specification states about them.

  Conventions of the embedding.
  \<^item> Python floats are real numbers. Every float the code computes itself is a quotient
    \<open>k / 255\<close> with \<open>0 \<le> k \<le> 255\<close>, and it only compares floats; on these quotients
    the comparison with \<open>5.0 / 255.0\<close> agrees with the comparison of the reals. The
    literals \<open>1e-3\<close>, \<open>0.5\<close> and \<open>1.0\<close> are read as the numbers they denote.
  \<^item> Python ints are \<^typ>\<open>int\<close>; \<open>&\<close> and \<open>>>\<close> on them are two's complement on
    unbounded integers, as \<open>AND\<close> and \<^const>\<open>drop_bit\<close> are.
  \<^item> A dictionary of the extractor is a record. A key the code reads with \<^verbatim>\<open>d[k]\<close>
    is a field; a key it reads with \<^verbatim>\<open>d.get(k)\<close> is an optional field, \<open>None\<close>
    standing for the missing key.
  \<^item> The page canvas is a log: every call of an insertion or drawing method appends one
    \<open>draw_op\<close> to the page's draw sequence. The constructors \<^verbatim>\<open>fitz.Point\<close> and
    \<^verbatim>\<open>fitz.Rect\<close> on untyped path data and \<^verbatim>\<open>extract_image\<close> belong to the
    document library; they are parameters of the model that may fail.
  \<^item> An exception is a value: each phase returns the operations it emitted together with
    the error that stopped it, if any.
\<close>

subsection \<open>Colour codec\<close>

type_synonym rgb = "real \<times> real \<times> real"

text \<open>\<^verbatim>\<open>int_to_rgb_float(color_int)\<close>; the argument \<open>None\<close> is Python's \<^verbatim>\<open>None\<close>.\<close>

definition int_to_rgb_float :: "int option \<Rightarrow> rgb" where
  "int_to_rgb_float color_int =
     (case color_int of
        None \<Rightarrow> (1, 1, 1)
      | Some c \<Rightarrow>
          (let blue = real_of_int (c AND 255) / 255;
               green = real_of_int (drop_bit 8 c AND 255) / 255;
               red = real_of_int (drop_bit 16 c AND 255) / 255
           in (red, green, blue)))"

text \<open>
  The choice of the render colour of a span (\<^verbatim>\<open>epsilon\<close>, \<^verbatim>\<open>is_non_black\<close> and the
  \<^verbatim>\<open>if\<close> that follows them).
\<close>

definition render_color :: "rgb \<Rightarrow> rgb" where
  "render_color orig_color =
     (let epsilon = 5 / 255;
          is_non_black = (case orig_color of (r, g, b) \<Rightarrow> list_ex (\<lambda>ch. ch > epsilon) [r, g, b])
      in if is_non_black then orig_color else (1, 1, 1))"

subsection \<open>Font classifier\<close>

text \<open>
  \<^verbatim>\<open>str.lower\<close> on the ASCII letters. A font name is a string of one-byte characters;
  a character outside \<open>A\<close> to \<open>Z\<close> is left as it is, and none of them becomes a letter of
  \<open>bold\<close>, \<open>italic\<close> or \<open>oblique\<close>.
\<close>

definition lower_char :: "char \<Rightarrow> char" where
  "lower_char c =
     (let n = (of_char c :: nat) in if 65 \<le> n \<and> n \<le> 90 then char_of (n + 32) else c)"

definition lower :: "string \<Rightarrow> string" where
  "lower s = map lower_char s"

fun startswith :: "string \<Rightarrow> string \<Rightarrow> bool" where
  "startswith hay [] = True"
| "startswith [] (c # cs) = False"
| "startswith (h # hs) (c # cs) = (h = c \<and> startswith hs cs)"

text \<open>Python's \<^verbatim>\<open>needle in hay\<close> on strings.\<close>

fun py_in :: "string \<Rightarrow> string \<Rightarrow> bool" where
  "py_in needle [] = (needle = [])"
| "py_in needle (h # hs) = (startswith (h # hs) needle \<or> py_in needle hs)"

definition map_font :: "string \<Rightarrow> string" where
  "map_font pdf_font_name =
     (let f = lower pdf_font_name in
      if py_in ''bold'' f \<and> (py_in ''italic'' f \<or> py_in ''oblique'' f) then ''Times-BoldItalic''
      else if py_in ''bold'' f then ''Times-Bold''
      else if py_in ''italic'' f \<or> py_in ''oblique'' f then ''Times-Italic''
      else ''Times-Roman'')"

subsection \<open>Extracted page content\<close>

type_synonym point = "real \<times> real"
type_synonym rect = "real \<times> real \<times> real \<times> real"

text \<open>
  An untyped Python value, for the fields the code inspects with \<^verbatim>\<open>isinstance\<close>:
  \<open>PInt\<close> is any instance of \<^verbatim>\<open>int\<close>, \<open>PSeq\<close> a tuple or a list, \<open>POther\<close> an
  object of any other class, named by its class.
\<close>

datatype pyval =
    PNone
  | PInt int
  | PFloat real
  | PStr string
  | PSeq "pyval list"
  | POther string

record span =
  sp_text :: string
  sp_size :: real
  sp_font :: string
  sp_color :: "int option"
  sp_origin :: point
  sp_bbox :: rect
  sp_matrix :: "real list option"

record text_line =
  ln_spans :: "span list option"

record block =
  b_type :: "int option"
  b_xref :: "int option"
  b_bbox :: rect
  b_lines :: "text_line list option"

record drawing =
  d_color :: "pyval option"
  d_width :: "pyval option"
  d_linewidth :: "pyval option"
  d_items :: "pyval list list"

text \<open>
  A source page: \<^verbatim>\<open>page.rect\<close> with its \<^verbatim>\<open>width\<close> and \<^verbatim>\<open>height\<close>, the blocks of
  \<^verbatim>\<open>get_text("dict")\<close> and the groups of \<^verbatim>\<open>get_drawings()\<close>. The results of
  \<^verbatim>\<open>get_images\<close> and \<^verbatim>\<open>get_links\<close> are computed by the code and never used.
\<close>

record page =
  pg_rect :: rect
  pg_width :: real
  pg_height :: real
  pg_blocks :: "block list"
  pg_drawings :: "drawing list"

subsection \<open>The page canvas\<close>

text \<open>
  The bytes handed to \<^verbatim>\<open>insert_image\<close>: the cover image resized to the given integer
  width and height and passed through \<^verbatim>\<open>apply_blur_and_grain\<close>, or the bytes of an
  embedded image.
\<close>

datatype stream = Background int int | ImageBytes string

datatype text_align = TEXT_ALIGN_LEFT | TEXT_ALIGN_CENTER | TEXT_ALIGN_RIGHT | TEXT_ALIGN_JUSTIFY

text \<open>
  One constructor for each canvas method the code calls, with the arguments it passes:
  \<open>InsertImage rect stream overlay\<close>, \<open>DrawLine p1 p2 color width\<close>,
  \<open>DrawRect rect color fill width\<close>, \<open>DrawPolyline points color width\<close>,
  \<open>DrawBezier points color width\<close>,
  \<open>InsertTextbox rect text fontname fontsize color rotate align\<close> and
  \<open>InsertText origin text fontname fontsize color\<close>.
\<close>

datatype draw_op =
    InsertImage rect stream bool
  | DrawLine point point "pyval list" pyval
  | DrawRect rect "pyval list" "pyval list option" real
  | DrawPolyline "point list" "pyval list" pyval
  | DrawBezier "point list" "pyval list" pyval
  | InsertTextbox rect string string real rgb int text_align
  | InsertText point string string real rgb

datatype error = IndexError | ConstructError | ExtractError

text \<open>The library calls that may raise; \<open>None\<close> is the exception.\<close>

record env =
  mk_point :: "pyval \<Rightarrow> point option"
  mk_rect :: "pyval \<Rightarrow> rect option"
  extract_image :: "int \<Rightarrow> string option"

type_synonym outcome = "draw_op list \<times> error option"

text \<open>
  Two statements in sequence, and a \<^verbatim>\<open>for\<close> loop: an exception in one step leaves the
  operations emitted so far and runs nothing after it.
\<close>

fun andthen :: "outcome \<Rightarrow> outcome \<Rightarrow> outcome" where
  "andthen (ops, Some e) nxt = (ops, Some e)"
| "andthen (ops, None) (ops', e') = (ops @ ops', e')"

fun for_each :: "('a \<Rightarrow> outcome) \<Rightarrow> 'a list \<Rightarrow> outcome" where
  "for_each body [] = ([], None)"
| "for_each body (x # xs) = andthen (body x) (for_each body xs)"

subsection \<open>Phase 2: raster images\<close>

definition image_block :: "env \<Rightarrow> block \<Rightarrow> outcome" where
  "image_block env b =
     (if b_type b = Some 1 then
        (case b_xref b of
           None \<Rightarrow> ([], None)
         | Some xref \<Rightarrow>
             if xref = 0 then ([], None)
             else (case extract_image env xref of
                     None \<Rightarrow> ([], Some ExtractError)
                   | Some img \<Rightarrow> ([InsertImage (b_bbox b) (ImageBytes img) True], None)))
      else ([], None))"

subsection \<open>Phase 3: vector drawings\<close>

definition rgb_tuple :: "rgb \<Rightarrow> pyval list" where
  "rgb_tuple c = (case c of (r, g, b) \<Rightarrow> [PFloat r, PFloat g, PFloat b])"

text \<open>The chain on \<^verbatim>\<open>color_val\<close>, in the order of the source.\<close>

fun resolve_color :: "pyval \<Rightarrow> pyval list" where
  "resolve_color PNone = rgb_tuple (1, 1, 1)"
| "resolve_color (PSeq vs) = vs"
| "resolve_color (PInt c) = rgb_tuple (int_to_rgb_float (Some c))"
| "resolve_color v = rgb_tuple (1, 1, 1)"

definition draw_color :: "drawing \<Rightarrow> pyval list" where
  "draw_color d = resolve_color (case d_color d of None \<Rightarrow> PNone | Some v \<Rightarrow> v)"

definition draw_width :: "drawing \<Rightarrow> pyval" where
  "draw_width d =
     (case d_width d of
        Some w \<Rightarrow> w
      | None \<Rightarrow> (case d_linewidth d of Some l \<Rightarrow> l | None \<Rightarrow> PFloat 1))"

text \<open>\<^verbatim>\<open>max(0.5, draw_width)\<close>, a TypeError when the width is not a number.\<close>

fun max_half :: "pyval \<Rightarrow> real option" where
  "max_half (PInt i) = Some (max (1 / 2) (real_of_int i))"
| "max_half (PFloat x) = Some (max (1 / 2) x)"
| "max_half v = None"

fun is_seq :: "pyval \<Rightarrow> bool" where
  "is_seq (PSeq vs) = True"
| "is_seq v = False"

fun seq_items :: "pyval \<Rightarrow> pyval list" where
  "seq_items (PSeq vs) = vs"
| "seq_items v = []"

definition draw_item :: "env \<Rightarrow> pyval list \<Rightarrow> pyval \<Rightarrow> pyval list \<Rightarrow> outcome" where
  "draw_item env color width item =
     (let typ = (if length item > 0 then item ! 0 else PNone);
          pts = (if length item > 1 then item ! 1 else PSeq [])
      in
      if (typ = PStr ''l'' \<or> typ = PStr ''L'') \<and> is_seq pts \<and> length (seq_items pts) \<ge> 2 then
        (case mk_point env (seq_items pts ! 0) of
           None \<Rightarrow> ([], Some ConstructError)
         | Some p1 \<Rightarrow>
             (case mk_point env (seq_items pts ! 1) of
                None \<Rightarrow> ([], Some ConstructError)
              | Some p2 \<Rightarrow> ([DrawLine p1 p2 color width], None)))
      else if typ = PStr ''re'' \<and> is_seq pts then
        (case mk_rect env pts of
           None \<Rightarrow> ([], None)
         | Some r \<Rightarrow>
             (case max_half width of
                None \<Rightarrow> ([], None)
              | Some w \<Rightarrow> ([DrawRect r color None w], None)))
      else if (typ = PStr ''qu'' \<or> typ = PStr ''p'') \<and> is_seq pts then
        (case those (map (mk_point env) (seq_items pts)) of
           None \<Rightarrow> ([], None)
         | Some pts_list \<Rightarrow> ([DrawPolyline pts_list color width], None))
      else if (typ = PStr ''c'' \<or> typ = PStr ''be'' \<or> typ = PStr ''b'') \<and> is_seq pts then
        (case those (map (mk_point env) (seq_items pts)) of
           None \<Rightarrow> ([], None)
         | Some pts_list \<Rightarrow> ([DrawBezier pts_list color width], None))
      else ([], None))"

definition draw_group :: "env \<Rightarrow> drawing \<Rightarrow> outcome" where
  "draw_group env d = for_each (draw_item env (draw_color d) (draw_width d)) (d_items d)"

subsection \<open>Phase 4: text\<close>

definition span_color :: "span \<Rightarrow> rgb" where
  "span_color sp =
     render_color (int_to_rgb_float (Some (case sp_color sp of None \<Rightarrow> 0 | Some c \<Rightarrow> c)))"

definition span_matrix :: "span \<Rightarrow> real list" where
  "span_matrix sp = (case sp_matrix sp of None \<Rightarrow> [1, 0, 0, 1, 0, 0] | Some m \<Rightarrow> m)"

definition draw_span :: "span \<Rightarrow> outcome" where
  "draw_span sp =
     (let text = sp_text sp;
          size = sp_size sp;
          font = map_font (sp_font sp);
          color = span_color sp;
          origin = sp_origin sp;
          matrix = span_matrix sp
      in
      if length matrix \<le> 1 then ([], Some IndexError)
      else if \<bar>matrix ! 1\<bar> > 1 / 1000 then
        (let rect = sp_bbox sp;
             angle = (if matrix ! 1 > 0 then 90 else - 90)
         in ([InsertTextbox rect text font size color angle TEXT_ALIGN_LEFT], None))
      else ([InsertText origin text font size color], None))"

definition draw_line_spans :: "text_line \<Rightarrow> outcome" where
  "draw_line_spans line = for_each draw_span (case ln_spans line of None \<Rightarrow> [] | Some sps \<Rightarrow> sps)"

definition draw_block_text :: "block \<Rightarrow> outcome" where
  "draw_block_text blk =
     for_each draw_line_spans (case b_lines blk of None \<Rightarrow> [] | Some lns \<Rightarrow> lns)"

subsection \<open>One page, and the document\<close>

text \<open>\<^verbatim>\<open>int(x)\<close> on a float: truncation towards zero.\<close>

definition py_int :: "real \<Rightarrow> int" where
  "py_int x = (if x \<ge> 0 then \<lfloor>x\<rfloor> else \<lceil>x\<rceil>)"

definition background_op :: "page \<Rightarrow> draw_op" where
  "background_op pg =
     InsertImage (pg_rect pg) (Background (py_int (pg_width pg)) (py_int (pg_height pg))) False"

text \<open>The body of the loop over the pages, after \<^verbatim>\<open>new_page\<close>.\<close>

definition stylise_page :: "env \<Rightarrow> page \<Rightarrow> outcome" where
  "stylise_page env pg =
     andthen ([background_op pg], None)
       (andthen (for_each (image_block env) (pg_blocks pg))
          (andthen (for_each (draw_group env) (pg_drawings pg))
             (for_each draw_block_text (pg_blocks pg))))"

record out_page =
  np_width :: real
  np_height :: real
  np_ops :: "draw_op list"

text \<open>
  The loop over the pages of the source: \<^verbatim>\<open>new_page\<close> with the width and height of
  the source page, then the page's phases. An exception leaves the loop.
\<close>

fun build_pages :: "env \<Rightarrow> page list \<Rightarrow> out_page list \<times> error option" where
  "build_pages env [] = ([], None)"
| "build_pages env (pg # pgs) =
     (case stylise_page env pg of
        (ops, Some e) \<Rightarrow>
          ([\<lparr>np_width = pg_width pg, np_height = pg_height pg, np_ops = ops\<rparr>], Some e)
      | (ops, None) \<Rightarrow>
          (case build_pages env pgs of
             (npgs, e) \<Rightarrow>
               (\<lparr>np_width = pg_width pg, np_height = pg_height pg, np_ops = ops\<rparr> # npgs, e)))"

text \<open>
  The state a run ends in: the pages of \<^verbatim>\<open>dst\<close>, the documents written to
  \<^verbatim>\<open>out_path\<close> (one entry for each call of \<^verbatim>\<open>dst.save\<close>, in order), and the
  exception that ended the run, if any.
\<close>

record run =
  dst_pages :: "out_page list"
  saved :: "out_page list list"
  failure :: "error option"

definition stylise_pdf :: "env \<Rightarrow> page list \<Rightarrow> run" where
  "stylise_pdf env src =
     (case build_pages env src of
        (npgs, Some e) \<Rightarrow> \<lparr>dst_pages = npgs, saved = [], failure = Some e\<rparr>
      | (npgs, None) \<Rightarrow> \<lparr>dst_pages = npgs, saved = [npgs], failure = None\<rparr>)"

text \<open>The layer an operation of the draw sequence belongs to.\<close>

datatype layer = BackgroundLayer | RasterLayer | VectorLayer | TextLayer

fun layer_of :: "draw_op \<Rightarrow> layer" where
  "layer_of (InsertImage r s overlay) = (if overlay then RasterLayer else BackgroundLayer)"
| "layer_of (DrawLine p1 p2 c w) = VectorLayer"
| "layer_of (DrawRect r c f w) = VectorLayer"
| "layer_of (DrawPolyline ps c w) = VectorLayer"
| "layer_of (DrawBezier ps c w) = VectorLayer"
| "layer_of (InsertTextbox r t f s c a al) = TextLayer"
| "layer_of (InsertText p t f s c) = TextLayer"

subsection \<open>Example inputs\<close>

text \<open>
  A document library for the examples: a point is built from a pair of floats, a rectangle
  from four floats, everything else raises; only the image of handle 7 can be extracted.
\<close>

fun example_mk_point :: "pyval \<Rightarrow> point option" where
  "example_mk_point (PSeq [PFloat x, PFloat y]) = Some (x, y)"
| "example_mk_point v = None"

fun example_mk_rect :: "pyval \<Rightarrow> rect option" where
  "example_mk_rect (PSeq [PFloat x0, PFloat y0, PFloat x1, PFloat y1]) = Some (x0, y0, x1, y1)"
| "example_mk_rect v = None"

definition example_env :: env where
  "example_env =
     \<lparr>mk_point = example_mk_point, mk_rect = example_mk_rect,
      extract_image = (\<lambda>xref. if xref = 7 then Some ''PNG'' else None)\<rparr>"

text \<open>A black span whose matrix has the given shear component.\<close>

definition example_span :: "real \<Rightarrow> span" where
  "example_span shear =
     \<lparr>sp_text = ''Hello'', sp_size = 11, sp_font = ''Helvetica-Bold'', sp_color = Some 0,
      sp_origin = (72, 100), sp_bbox = (72, 90, 120, 104),
      sp_matrix = Some [0, shear, - shear, 0, 0, 0]\<rparr>"

text \<open>
  A red drawing group of width 0.25 with a rectangle and a line, and a rectangle segment
  with a single point.
\<close>

definition example_drawing :: drawing where
  "example_drawing =
     \<lparr>d_color = Some (PSeq [PFloat 1, PFloat 0, PFloat 0]), d_width = Some (PFloat (1 / 4)),
      d_linewidth = None,
      d_items =
        [[PStr ''re'', PSeq [PFloat 10, PFloat 20, PFloat 110, PFloat 220]],
         [PStr ''l'', PSeq [PSeq [PFloat 0, PFloat 0], PSeq [PFloat 5, PFloat 5]]]]\<rparr>"


text \<open>
  A page whose text block comes before its image block, with one drawing group, and a
  second, empty page of fractional width.
\<close>

definition example_page :: page where
  "example_page =
     \<lparr>pg_rect = (0, 0, 612, 792), pg_width = 612, pg_height = 792,
      pg_blocks =
        [\<lparr>b_type = Some 0, b_xref = None, b_bbox = (72, 90, 120, 104),
          b_lines = Some [\<lparr>ln_spans = Some [example_span 0]\<rparr>]\<rparr>,
         \<lparr>b_type = Some 1, b_xref = Some 7, b_bbox = (100, 200, 300, 400), b_lines = None\<rparr>],
      pg_drawings = [example_drawing]\<rparr>"

definition example_page2 :: page where
  "example_page2 =
     \<lparr>pg_rect = (0, 0, 1191 / 2, 842), pg_width = 1191 / 2, pg_height = 842,
      pg_blocks = [], pg_drawings = []\<rparr>"

section \<open>Properties\<close>

subsection \<open>Colour codec\<close>

lemma and_255_mod: "(c::int) AND 255 = c mod 256"
  using take_bit_eq_mask [of 8 c] by (simp add: take_bit_eq_mod mask_eq_exp_minus_1)

lemma byte_channel_bounds:
  "0 \<le> real_of_int (c mod 256) / 255 \<and> real_of_int (c mod 256) / 255 \<le> 1"
proof -
  have "0 \<le> c mod 256" and "c mod 256 \<le> 255"
    using pos_mod_bound [of 256 c] by simp_all
  then show ?thesis by simp
qed

lemma int_to_rgb_float_Some:
  "int_to_rgb_float (Some c) =
     (real_of_int (c div 65536 mod 256) / 255,
      real_of_int (c div 256 mod 256) / 255,
      real_of_int (c mod 256) / 255)"
  by (simp add: int_to_rgb_float_def and_255_mod drop_bit_eq_div)

text \<open>
  Claim C4. The decoder is total; \<open>None\<close> decodes to white; for every integer the blue
  channel is the low byte, the green channel the next byte and the red channel the third
  byte, each divided by 255; every channel lies between 0 and 1; and the three primary
  colours decode to the unit triples.
\<close>

theorem int_to_rgb_float_decodes:
  "int_to_rgb_float None = (1, 1, 1)
   \<and> int_to_rgb_float (Some c) =
       (real_of_int (c div 65536 mod 256) / 255,
        real_of_int (c div 256 mod 256) / 255,
        real_of_int (c mod 256) / 255)
   \<and> (case int_to_rgb_float (Some c) of
         (r, g, b) \<Rightarrow> 0 \<le> r \<and> r \<le> 1 \<and> 0 \<le> g \<and> g \<le> 1 \<and> 0 \<le> b \<and> b \<le> 1)
   \<and> int_to_rgb_float (Some 0x00FF0000) = (1, 0, 0)
   \<and> int_to_rgb_float (Some 0x0000FF00) = (0, 1, 0)
   \<and> int_to_rgb_float (Some 0x000000FF) = (0, 0, 1)"
proof -
  have n: "int_to_rgb_float None = (1, 1, 1)"
    by (simp add: int_to_rgb_float_def)
  have b: "case int_to_rgb_float (Some c) of
         (r, g, b) \<Rightarrow> 0 \<le> r \<and> r \<le> 1 \<and> 0 \<le> g \<and> g \<le> 1 \<and> 0 \<le> b \<and> b \<le> 1"
    using byte_channel_bounds [of "c div 65536"] byte_channel_bounds [of "c div 256"]
      byte_channel_bounds [of c]
    by (simp add: int_to_rgb_float_Some)
  have r: "int_to_rgb_float (Some 0x00FF0000) = (1, 0, 0)"
    by (simp add: int_to_rgb_float_Some)
  have g: "int_to_rgb_float (Some 0x0000FF00) = (0, 1, 0)"
    by (simp add: int_to_rgb_float_Some)
  have bl: "int_to_rgb_float (Some 0x000000FF) = (0, 0, 1)"
    by (simp add: int_to_rgb_float_Some)
  from n b r g bl show ?thesis
    by (simp only: int_to_rgb_float_Some [of c] simp_thms)
qed

lemma render_color_test:
  "render_color (r, g, b) =
     (if r \<le> 5 / 255 \<and> g \<le> 5 / 255 \<and> b \<le> 5 / 255 then (1, 1, 1) else (r, g, b))"
  by (auto simp: render_color_def Let_def)

text \<open>
  Claim C2. The render colour of a span is white when every channel of its decoded colour
  is at most \<open>5 / 255\<close>, and the decoded colour itself otherwise; it is one of the two and
  nothing in between. The decoded colour \<open>(0, 0, 0)\<close> renders white, the decoded colour
  \<open>(0.8, 0.1, 0.1)\<close> renders as itself; a span of packed colour 0 or without a colour
  renders white, and a span of the red \<open>0xCC1A1A\<close> keeps its colour.
\<close>

theorem span_color_decides:
  "span_color sp =
     (case int_to_rgb_float (Some (case sp_color sp of None \<Rightarrow> 0 | Some c \<Rightarrow> c)) of
        (r, g, b) \<Rightarrow>
          if r \<le> 5 / 255 \<and> g \<le> 5 / 255 \<and> b \<le> 5 / 255 then (1, 1, 1) else (r, g, b))
   \<and> render_color (r, g, b) =
       (if r \<le> 5 / 255 \<and> g \<le> 5 / 255 \<and> b \<le> 5 / 255 then (1, 1, 1) else (r, g, b))
   \<and> (render_color (r, g, b) = (1, 1, 1) \<or> render_color (r, g, b) = (r, g, b))
   \<and> render_color (0, 0, 0) = (1, 1, 1)
   \<and> render_color (8 / 10, 1 / 10, 1 / 10) = (8 / 10, 1 / 10, 1 / 10)
   \<and> span_color (sp\<lparr>sp_color := Some 0\<rparr>) = (1, 1, 1)
   \<and> span_color (sp\<lparr>sp_color := None\<rparr>) = (1, 1, 1)
   \<and> span_color (sp\<lparr>sp_color := Some 0xCC1A1A\<rparr>) = (204 / 255, 26 / 255, 26 / 255)"
proof -
  have a: "span_color sp =
     (case int_to_rgb_float (Some (case sp_color sp of None \<Rightarrow> 0 | Some c \<Rightarrow> c)) of
        (r, g, b) \<Rightarrow>
          if r \<le> 5 / 255 \<and> g \<le> 5 / 255 \<and> b \<le> 5 / 255 then (1, 1, 1) else (r, g, b))"
    unfolding span_color_def
    by (cases "int_to_rgb_float (Some (case sp_color sp of None \<Rightarrow> 0 | Some c \<Rightarrow> c))")
      (simp only: render_color_test prod.case)
  have b: "render_color (0, 0, 0) = (1, 1, 1)"
    by (simp add: render_color_test)
  have c: "render_color (8 / 10, 1 / 10, 1 / 10) = (8 / 10, 1 / 10, 1 / 10)"
    by (simp add: render_color_test)
  have d: "span_color (sp\<lparr>sp_color := Some 0\<rparr>) = (1, 1, 1)"
    by (simp add: span_color_def int_to_rgb_float_Some render_color_test)
  have e: "span_color (sp\<lparr>sp_color := None\<rparr>) = (1, 1, 1)"
    by (simp add: span_color_def int_to_rgb_float_Some render_color_test)
  have f: "span_color (sp\<lparr>sp_color := Some 0xCC1A1A\<rparr>) = (204 / 255, 26 / 255, 26 / 255)"
    by (simp add: span_color_def int_to_rgb_float_Some render_color_test)
  have g: "render_color (r, g, b) = (1, 1, 1) \<or> render_color (r, g, b) = (r, g, b)"
    by (simp add: render_color_test)
  from a b c d e f g show ?thesis
    by (simp only: render_color_test [of r g b] simp_thms)
qed

subsection \<open>Font classifier\<close>

lemma startswith_prefix: "startswith hay needle \<longleftrightarrow> prefix needle hay"
  by (induction hay needle rule: startswith.induct) auto

lemma py_in_sublist: "py_in needle hay \<longleftrightarrow> sublist needle hay"
  by (induction hay) (auto simp: startswith_prefix sublist_Cons_right)

lemma map_font_cases:
  "map_font name =
     (if sublist ''bold'' (lower name)
      then (if sublist ''italic'' (lower name) \<or> sublist ''oblique'' (lower name)
            then ''Times-BoldItalic'' else ''Times-Bold'')
      else (if sublist ''italic'' (lower name) \<or> sublist ''oblique'' (lower name)
            then ''Times-Italic'' else ''Times-Roman''))"
  by (simp add: map_font_def Let_def py_in_sublist)

lemma map_font_BoldOblique: "map_font ''Arial-BoldOblique'' = ''Times-BoldItalic''"
  by code_simp

lemma map_font_Bold: "map_font ''Helvetica-Bold'' = ''Times-Bold''"
  by code_simp

lemma map_font_Italic: "map_font ''Foo-Italic'' = ''Times-Italic''"
  by code_simp

lemma map_font_Roman: "map_font ''Times New Roman'' = ''Times-Roman''"
  by code_simp

text \<open>
  Claim C5. The classifier looks for \<open>bold\<close>, \<open>italic\<close> and \<open>oblique\<close> as contiguous
  substrings of the lower-cased name: bold together with italic or oblique gives the
  bold-italic face, bold alone the bold face, italic or oblique alone the italic face, and
  every other name the regular face. Two names that differ only in letter case are
  classified alike. The function is total. The four names of the specification are
  classified as it says.
\<close>

theorem map_font_classifies:
  "map_font name =
     (if sublist ''bold'' (lower name)
      then (if sublist ''italic'' (lower name) \<or> sublist ''oblique'' (lower name)
            then ''Times-BoldItalic'' else ''Times-Bold'')
      else (if sublist ''italic'' (lower name) \<or> sublist ''oblique'' (lower name)
            then ''Times-Italic'' else ''Times-Roman''))
   \<and> (\<forall>other. lower other = lower name \<longrightarrow> map_font other = map_font name)
   \<and> map_font ''Arial-BoldOblique'' = ''Times-BoldItalic''
   \<and> map_font ''Helvetica-Bold'' = ''Times-Bold''
   \<and> map_font ''Foo-Italic'' = ''Times-Italic''
   \<and> map_font ''Times New Roman'' = ''Times-Roman''"
proof -
  have ci: "\<forall>other. lower other = lower name \<longrightarrow> map_font other = map_font name"
    by (simp add: map_font_def)
  show ?thesis
    using map_font_cases [of name] ci map_font_BoldOblique map_font_Bold map_font_Italic
      map_font_Roman
    by blast
qed

theorem map_font_classifies_witness:
  "lower ''HELVETICA-BOLD'' = lower ''helvetica-bold''
   \<and> map_font ''HELVETICA-BOLD'' = map_font ''helvetica-bold''
   \<and> map_font ''helvetica-bold'' = ''Times-Bold''"
proof -
  have l: "lower ''HELVETICA-BOLD'' = lower ''helvetica-bold''" by code_simp
  have m: "map_font ''helvetica-bold'' = ''Times-Bold''" by code_simp
  from map_font_classifies [of "''helvetica-bold''"] l
  have "map_font ''HELVETICA-BOLD'' = map_font ''helvetica-bold''" by blast
  with l m show ?thesis by blast
qed

subsection \<open>Text spans\<close>

lemma example_span_color: "span_color (example_span shear) = (1, 1, 1)"
  by (simp add: example_span_def span_color_def int_to_rgb_float_Some render_color_test)

text \<open>
  Claim C3. For a span with a six-element matrix: when the element at index 1 is above
  \<open>1e-3\<close> the text goes into a left-aligned textbox over the span's bounding box, rotated
  by 90 degrees; when it is below \<open>-1e-3\<close>, into the same textbox rotated by -90 degrees;
  otherwise it is inserted as horizontal text at the span's origin. In every case the
  text, the size, the mapped font and the render colour of the span are used.
\<close>

theorem draw_span_rotation:
  assumes "sp_matrix sp = Some m" and "length m = 6"
  shows "draw_span sp =
     (if m ! 1 > 1 / 1000 then
        ([InsertTextbox (sp_bbox sp) (sp_text sp) (map_font (sp_font sp)) (sp_size sp)
            (span_color sp) 90 TEXT_ALIGN_LEFT], None)
      else if m ! 1 < - (1 / 1000) then
        ([InsertTextbox (sp_bbox sp) (sp_text sp) (map_font (sp_font sp)) (sp_size sp)
            (span_color sp) (- 90) TEXT_ALIGN_LEFT], None)
      else
        ([InsertText (sp_origin sp) (sp_text sp) (map_font (sp_font sp)) (sp_size sp)
            (span_color sp)], None))"
  using assms by (auto simp: draw_span_def span_matrix_def Let_def)

theorem draw_span_rotation_witness:
  "draw_span (example_span (1 / 2)) =
     ([InsertTextbox (72, 90, 120, 104) ''Hello'' ''Times-Bold'' 11 (1, 1, 1) 90
         TEXT_ALIGN_LEFT], None)
   \<and> draw_span (example_span (- (1 / 2))) =
     ([InsertTextbox (72, 90, 120, 104) ''Hello'' ''Times-Bold'' 11 (1, 1, 1) (- 90)
         TEXT_ALIGN_LEFT], None)
   \<and> draw_span (example_span (5 / 10000)) =
     ([InsertText (72, 100) ''Hello'' ''Times-Bold'' 11 (1, 1, 1)], None)"
  using draw_span_rotation [of "example_span (1 / 2)" "[0, 1 / 2, - (1 / 2), 0, 0, 0]"]
    draw_span_rotation [of "example_span (- (1 / 2))" "[0, - (1 / 2), - (- (1 / 2)), 0, 0, 0]"]
    draw_span_rotation [of "example_span (5 / 10000)" "[0, 5 / 10000, - (5 / 10000), 0, 0, 0]"]
  by (simp add: example_span_color map_font_Bold) (simp add: example_span_def map_font_Bold)

text \<open>
  Claim C10. A span without a matrix gets the identity \<open>[1, 0, 0, 1, 0, 0]\<close>, whose
  element at index 1 is 0, and is always inserted as horizontal text at its origin.
\<close>

theorem draw_span_no_matrix:
  "span_matrix (sp\<lparr>sp_matrix := None\<rparr>) = [1, 0, 0, 1, 0, 0]
   \<and> span_matrix (sp\<lparr>sp_matrix := None\<rparr>) ! 1 = 0
   \<and> draw_span (sp\<lparr>sp_matrix := None\<rparr>) =
       ([InsertText (sp_origin sp) (sp_text sp) (map_font (sp_font sp)) (sp_size sp)
           (span_color sp)], None)"
  by (simp add: draw_span_def span_matrix_def span_color_def Let_def)

subsection \<open>Sequencing and loops\<close>

lemma andthen_Nil [simp]: "andthen ([], None) b = b"
  by (cases b) simp





subsection \<open>Vector drawings\<close>

lemma draw_color_items [simp]: "draw_color (d\<lparr>d_items := its\<rparr>) = draw_color d"
  by (simp add: draw_color_def)

lemma draw_width_items [simp]: "draw_width (d\<lparr>d_items := its\<rparr>) = draw_width d"
  by (simp add: draw_width_def split: option.splits)

text \<open>
  Claim C6. The stroke colour of a drawing group is white when the colour is missing or
  \<open>None\<close>, the triplet itself when it is a triplet, the decoded colour when it is a
  packed integer, and white for a float, a string or any other object. The stroke width
  is the \<open>width\<close> field when the group has one, else the \<open>linewidth\<close> field when it has
  one, else 1.0. Resolving the two raises nothing: a group without segments ends without
  an error whatever its colour and width are.
\<close>

theorem stroke_style_resolved:
  "draw_color (d\<lparr>d_color := None\<rparr>) = [PFloat 1, PFloat 1, PFloat 1]
   \<and> draw_color (d\<lparr>d_color := Some PNone\<rparr>) = [PFloat 1, PFloat 1, PFloat 1]
   \<and> draw_color (d\<lparr>d_color := Some (PSeq [r, g, b])\<rparr>) = [r, g, b]
   \<and> draw_color (d\<lparr>d_color := Some (PInt c)\<rparr>) = rgb_tuple (int_to_rgb_float (Some c))
   \<and> draw_color (d\<lparr>d_color := Some (PFloat x)\<rparr>) = [PFloat 1, PFloat 1, PFloat 1]
   \<and> draw_color (d\<lparr>d_color := Some (PStr s)\<rparr>) = [PFloat 1, PFloat 1, PFloat 1]
   \<and> draw_color (d\<lparr>d_color := Some (POther s)\<rparr>) = [PFloat 1, PFloat 1, PFloat 1]
   \<and> draw_width (d\<lparr>d_width := Some w\<rparr>) = w
   \<and> draw_width (d\<lparr>d_width := None, d_linewidth := Some l\<rparr>) = l
   \<and> draw_width (d\<lparr>d_width := None, d_linewidth := None\<rparr>) = PFloat 1
   \<and> draw_group env (d\<lparr>d_items := []\<rparr>) = ([], None)"
  by (simp add: draw_color_def draw_width_def draw_group_def rgb_tuple_def)





lemma example_drawing_color: "draw_color example_drawing = [PFloat 1, PFloat 0, PFloat 0]"
  by (simp add: example_drawing_def draw_color_def)

lemma example_drawing_width: "draw_width example_drawing = PFloat (1 / 4)"
  by (simp add: example_drawing_def draw_width_def)

lemma example_drawing_group:
  "draw_group example_env example_drawing =
     ([DrawRect (10, 20, 110, 220) [PFloat 1, PFloat 0, PFloat 0] None (1 / 2),
       DrawLine (0, 0) (5, 5) [PFloat 1, PFloat 0, PFloat 0] (PFloat (1 / 4))], None)"
  by (simp add: draw_group_def example_drawing_color example_drawing_width)
    (simp add: example_drawing_def draw_item_def example_env_def)


subsection \<open>Layer order on a page\<close>

lemma fst_andthen:
  "fst (andthen a b) = fst a @ (if snd a = None then fst b else [])"
  by (cases a; cases b; cases "snd a") auto

lemma list_all_for_each:
  assumes "\<And>x. list_all P (fst (body x))"
  shows "list_all P (fst (for_each body xs))"
  using assms by (induction xs) (simp_all add: fst_andthen)

lemma image_block_layer: "list_all (\<lambda>op. layer_of op = RasterLayer) (fst (image_block env b))"
  by (simp add: image_block_def split: option.splits)

lemma draw_item_layer:
  "list_all (\<lambda>op. layer_of op = VectorLayer) (fst (draw_item env color width item))"
  by (simp add: draw_item_def Let_def split: option.splits)

lemma draw_group_layer: "list_all (\<lambda>op. layer_of op = VectorLayer) (fst (draw_group env d))"
  unfolding draw_group_def by (rule list_all_for_each) (rule draw_item_layer)

lemma draw_span_layer: "list_all (\<lambda>op. layer_of op = TextLayer) (fst (draw_span sp))"
  by (simp add: draw_span_def Let_def)

lemma draw_line_spans_layer:
  "list_all (\<lambda>op. layer_of op = TextLayer) (fst (draw_line_spans line))"
  unfolding draw_line_spans_def by (rule list_all_for_each) (rule draw_span_layer)

lemma draw_block_text_layer:
  "list_all (\<lambda>op. layer_of op = TextLayer) (fst (draw_block_text blk))"
  unfolding draw_block_text_def by (rule list_all_for_each) (rule draw_line_spans_layer)

lemma map_layer_replicate:
  "list_all (\<lambda>op. layer_of op = l) ops \<Longrightarrow> map layer_of ops = replicate (length ops) l"
  by (induction ops) simp_all

text \<open>
  Claim C1. On every page, whatever the order of the blocks and drawings in the extracted
  content, and also when an exception stops the page, the draw sequence is the background
  image, then only raster image placements, then only vector primitives, then only text
  insertions.
\<close>

theorem stylise_page_z_order:
  "\<exists>imgs vecs txts.
     fst (stylise_page env pg) = background_op pg # imgs @ vecs @ txts
     \<and> layer_of (background_op pg) = BackgroundLayer
     \<and> map layer_of imgs = replicate (length imgs) RasterLayer
     \<and> map layer_of vecs = replicate (length vecs) VectorLayer
     \<and> map layer_of txts = replicate (length txts) TextLayer"
proof -
  define A where "A = for_each (image_block env) (pg_blocks pg)"
  define B where "B = for_each (draw_group env) (pg_drawings pg)"
  define C where "C = for_each draw_block_text (pg_blocks pg)"
  define imgs where "imgs = fst A"
  define vecs where "vecs = (if snd A = None then fst B else [])"
  define txts where "txts = (if snd A = None \<and> snd B = None then fst C else [])"
  have a: "list_all (\<lambda>op. layer_of op = RasterLayer) imgs"
    unfolding imgs_def A_def by (rule list_all_for_each) (rule image_block_layer)
  have b: "list_all (\<lambda>op. layer_of op = VectorLayer) (fst B)"
    unfolding B_def by (rule list_all_for_each) (rule draw_group_layer)
  have c: "list_all (\<lambda>op. layer_of op = TextLayer) (fst C)"
    unfolding C_def by (rule list_all_for_each) (rule draw_block_text_layer)
  from b have b': "list_all (\<lambda>op. layer_of op = VectorLayer) vecs"
    by (simp add: vecs_def)
  from c have c': "list_all (\<lambda>op. layer_of op = TextLayer) txts"
    by (simp add: txts_def)
  have "stylise_page env pg = andthen ([background_op pg], None) (andthen A (andthen B C))"
    by (simp only: stylise_page_def A_def B_def C_def)
  then have e: "fst (stylise_page env pg) = background_op pg # imgs @ vecs @ txts"
    by (simp add: fst_andthen imgs_def vecs_def txts_def)
  have l: "layer_of (background_op pg) = BackgroundLayer"
    by (simp add: background_op_def)
  from e l map_layer_replicate [OF a] map_layer_replicate [OF b'] map_layer_replicate [OF c']
  show ?thesis by blast
qed

subsection \<open>The document\<close>

lemma build_pages_ok:
  "snd (build_pages env src) = None \<longleftrightarrow> list_all (\<lambda>pg. snd (stylise_page env pg) = None) src"
  by (induction src) (auto split: prod.splits option.splits)

lemma build_pages_length:
  "snd (build_pages env src) = None \<Longrightarrow> length (fst (build_pages env src)) = length src"
  by (induction src) (auto split: prod.splits option.splits)

lemma build_pages_width:
  "map np_width (fst (build_pages env src)) =
     take (length (fst (build_pages env src))) (map pg_width src)"
  by (induction src) (auto split: prod.splits option.splits)

lemma build_pages_height:
  "map np_height (fst (build_pages env src)) =
     take (length (fst (build_pages env src))) (map pg_height src)"
  by (induction src) (auto split: prod.splits option.splits)

lemma build_pages_ops:
  "map np_ops (fst (build_pages env src)) =
     take (length (fst (build_pages env src))) (map (\<lambda>pg. fst (stylise_page env pg)) src)"
  by (induction src) (auto split: prod.splits option.splits)

lemma stylise_pdf_fields:
  "dst_pages (stylise_pdf env src) = fst (build_pages env src)"
  "failure (stylise_pdf env src) = snd (build_pages env src)"
  "saved (stylise_pdf env src) =
     (if snd (build_pages env src) = None then [fst (build_pages env src)] else [])"
  by (auto simp: stylise_pdf_def split: prod.splits option.splits)

text \<open>
  Claim C9. The document is saved exactly once when no page raises, after all pages are
  built, and never otherwise; a run ends without an exception exactly when no page raises.
  A saved document has one page for each source page, in source order, each with the width
  and height of its source page and with that page's draw sequence. Also in a run that an
  exception stops, the pages created so far have the sizes of the first source pages.
\<close>

theorem stylise_pdf_pages_and_save:
  "saved (stylise_pdf env src) =
     (if failure (stylise_pdf env src) = None then [dst_pages (stylise_pdf env src)] else [])
   \<and> (failure (stylise_pdf env src) = None \<longleftrightarrow>
        list_all (\<lambda>pg. snd (stylise_page env pg) = None) src)
   \<and> (\<forall>doc \<in> set (saved (stylise_pdf env src)).
        length doc = length src
        \<and> map np_width doc = map pg_width src
        \<and> map np_height doc = map pg_height src
        \<and> map np_ops doc = map (\<lambda>pg. fst (stylise_page env pg)) src)
   \<and> map np_width (dst_pages (stylise_pdf env src)) =
       take (length (dst_pages (stylise_pdf env src))) (map pg_width src)
   \<and> map np_height (dst_pages (stylise_pdf env src)) =
       take (length (dst_pages (stylise_pdf env src))) (map pg_height src)"
proof -
  have s: "saved (stylise_pdf env src) =
     (if failure (stylise_pdf env src) = None then [dst_pages (stylise_pdf env src)] else [])"
    by (simp add: stylise_pdf_fields)
  have f: "failure (stylise_pdf env src) = None \<longleftrightarrow>
        list_all (\<lambda>pg. snd (stylise_page env pg) = None) src"
    by (simp add: stylise_pdf_fields build_pages_ok)
  have d: "\<forall>doc \<in> set (saved (stylise_pdf env src)).
        length doc = length src
        \<and> map np_width doc = map pg_width src
        \<and> map np_height doc = map pg_height src
        \<and> map np_ops doc = map (\<lambda>pg. fst (stylise_page env pg)) src"
  proof (cases "snd (build_pages env src)")
    case None
    then have l: "length (fst (build_pages env src)) = length src"
      by (rule build_pages_length)
    show ?thesis
      using None build_pages_width [of env src] build_pages_height [of env src]
        build_pages_ops [of env src]
      by (simp add: stylise_pdf_fields l)
  next
    case (Some e)
    then show ?thesis by (simp add: stylise_pdf_fields)
  qed
  have w: "map np_width (dst_pages (stylise_pdf env src)) =
       take (length (dst_pages (stylise_pdf env src))) (map pg_width src)"
    by (simp only: stylise_pdf_fields build_pages_width [of env src])
  have h: "map np_height (dst_pages (stylise_pdf env src)) =
       take (length (dst_pages (stylise_pdf env src))) (map pg_height src)"
    by (simp only: stylise_pdf_fields build_pages_height [of env src])
  from s f d w h show ?thesis by blast
qed

lemma example_page_ops:
  "stylise_page example_env example_page =
     ([InsertImage (0, 0, 612, 792) (Background 612 792) False,
       InsertImage (100, 200, 300, 400) (ImageBytes ''PNG'') True,
       DrawRect (10, 20, 110, 220) [PFloat 1, PFloat 0, PFloat 0] None (1 / 2),
       DrawLine (0, 0) (5, 5) [PFloat 1, PFloat 0, PFloat 0] (PFloat (1 / 4)),
       InsertText (72, 100) ''Hello'' ''Times-Bold'' 11 (1, 1, 1)], None)"
proof -
  have t: "draw_span (example_span 0) =
      ([InsertText (72, 100) ''Hello'' ''Times-Bold'' 11 (1, 1, 1)], None)"
    by (simp add: draw_span_def span_matrix_def example_span_color Let_def)
      (simp add: example_span_def map_font_Bold)
  show ?thesis
    by (simp add: stylise_page_def example_page_def background_op_def py_int_def
        image_block_def example_drawing_group draw_block_text_def draw_line_spans_def t)
      (simp add: example_env_def)
qed

lemma example_page2_ops:
  "stylise_page example_env example_page2 =
     ([InsertImage (0, 0, 1191 / 2, 842) (Background 595 842) False], None)"
  by (simp add: stylise_page_def example_page2_def background_op_def py_int_def)

theorem stylise_pdf_pages_and_save_witness:
  "failure (stylise_pdf example_env [example_page, example_page2]) = None
   \<and> length (saved (stylise_pdf example_env [example_page, example_page2])) = 1
   \<and> map np_width (hd (saved (stylise_pdf example_env [example_page, example_page2]))) =
       [612, 1191 / 2]
   \<and> map np_height (hd (saved (stylise_pdf example_env [example_page, example_page2]))) =
       [792, 842]"
proof -
  let ?r = "stylise_pdf example_env [example_page, example_page2]"
  note t = stylise_pdf_pages_and_save [of example_env "[example_page, example_page2]"]
  have ok: "list_all (\<lambda>pg. snd (stylise_page example_env pg) = None) [example_page, example_page2]"
    by (simp add: example_page_ops example_page2_ops)
  with t have f: "failure ?r = None" by blast
  with t have s: "saved ?r = [dst_pages ?r]" by simp
  then have m: "hd (saved ?r) \<in> set (saved ?r)" by simp
  from t m have "map np_width (hd (saved ?r)) = map pg_width [example_page, example_page2]"
    and "map np_height (hd (saved ?r)) = map pg_height [example_page, example_page2]"
    by blast+
  then have "map np_width (hd (saved ?r)) = [612, 1191 / 2]"
    and "map np_height (hd (saved ?r)) = [792, 842]"
    by (simp_all add: example_page_def example_page2_def)
  with f s show ?thesis by simp
qed

end
